theory Spec2Isabelle
  imports Main "HOL-Library.Sublist" "HOL-Library.Word"
begin

section \<open>Data model of src/torrent/download.cc\<close>

text \<open>
  The file defines the class \<open>Download\<close>: its constructor, \<open>start\<close>, \<open>stop\<close>,
  the dispatch entry point \<open>service\<close> and the tracker callback \<open>add_peers\<close>.
  The classes it talks to (\<open>Peer\<close>, \<open>PeerConnection\<close>, \<open>DownloadState\<close>, \<open>Files\<close>,
  \<open>TrackerControl\<close>, \<open>Timer\<close>, \<open>bencode\<close>) are declared in headers that are not part
  of src; of each, only the members that download.cc reads or writes are modelled.
\<close>

subsection \<open>Peers and connections\<close>

text \<open>\<open>Peer(id, dns, port)\<close>, as the constructor builds \<open>m_state.me()\<close>.\<close>

record Peer =
  p_id :: string
  p_dns :: string
  p_port :: nat

text \<open>
  Modelled from the spec: \<open>Peer::is_same_host\<close> is declared outside src. The spec
  says that two candidates are the same host when host and port match; identity is
  location-based, the id takes no part.
\<close>

definition is_same_host :: "Peer \<Rightarrow> Peer \<Rightarrow> bool" where
  "is_same_host a b = (p_dns a = p_dns b \<and> p_port a = p_port b)"

text \<open>
  One \<open>PeerConnection\<close>, reduced to what \<open>Download\<close> reads: \<open>peer()\<close>,
  \<open>up().c_choked()\<close>, \<open>down().c_interested()\<close>, \<open>lastChoked()\<close>,
  \<open>throttle().down().rate()\<close> and \<open>throttle().up().rate()\<close>. Times are integers
  (\<open>Timer\<close> counts microseconds). The class \<open>Rate\<close> is declared outside src: a rate
  is taken as an \<open>unsigned int\<close> of 32 bits, a count of bytes per second, so that
  arithmetic on rates wraps modulo \<open>2^32\<close>.
\<close>

record PeerConnection =
  peer :: Peer
  up_c_choked :: bool
  down_c_interested :: bool
  lastChoked :: int
  throttle_down_rate :: "32 word"
  throttle_up_rate :: "32 word"

text \<open>
  Modelled from the spec: \<open>PeerConnection::choke(bool)\<close> is declared outside src. The
  spec lists a choke command that is idempotent when the connection already is in the
  requested state, and a timestamp of the last choke-state change; so a command that
  changes the state stamps the connection with the time of the tick.
\<close>

definition choke :: "int \<Rightarrow> bool \<Rightarrow> PeerConnection \<Rightarrow> PeerConnection" where
  "choke now v c =
     (if up_c_choked c = v then c else c\<lparr>up_c_choked := v, lastChoked := now\<rparr>)"

subsection \<open>The download and its state\<close>

record Settings =
  chokeCycle :: int
  chokeGracePeriod :: int

text \<open>
  \<open>Files\<close>: whether \<open>openAll\<close> has run without a later \<open>closeAll\<close>, the number of
  completed chunks, \<open>storage().get_chunkcount()\<close> and the completion bitfield.
\<close>

record Files =
  f_opened :: bool
  chunkCompleted :: nat
  chunkcount :: nat
  bitfield :: "bool list"

text \<open>
  Modelled from the spec: \<open>BitField::allSet\<close> is declared outside src; the bitfield
  is fully set when every bit of it is set.
\<close>

definition allSet :: "bool list \<Rightarrow> bool" where
  "allSet bf = list_all (\<lambda>b. b) bf"

record DownloadState =
  files :: Files
  me :: Peer
  hash :: string
  bfCounter :: "nat list"
  connections :: "PeerConnection list"
  available_peers :: "Peer list"
  settings :: Settings

record TrackerControl =
  t_me :: Peer
  t_hash :: string
  t_urls :: "string list"

datatype tracker_state = TRACKER_STARTED | TRACKER_STOPPED

text \<open>
  The tag of \<open>service(int type)\<close>. The two enumerators come from download.h; every
  other integer is \<open>OTHER\<close>.
\<close>

datatype service_type = HASH_COMPLETED | CHOKE_CYCLE | OTHER int

text \<open>The three exception classes the file throws or catches.\<close>

datatype exn = bencode_error string | local_error string | internal_error string

text \<open>
  Calls that \<open>Download\<close> makes on its collaborators and that have no further effect
  on the modelled state are recorded, in the order they are made. A connection is
  named by its position in \<open>state().connections()\<close>.
\<close>

datatype call =
    Tracker_send_state tracker_state
  | InsertService int service_type
  | RemoveService service_type
  | Files_set
  | Files_openAll
  | Files_closeAll
  | Files_resizeAll
  | New_TrackerControl
  | Delete_tracker
  | Tracker_add_url string
  | Signal_connect string
  | FilesCheck_check service_type
  | RateUp_rate
  | RateDown_rate
  | Choke nat bool
  | Connect_peers

text \<open>
  \<open>m_tracker\<close> is \<open>None\<close> when the pointer is \<open>NULL\<close> or the object it pointed to
  has been deleted.
\<close>

record Download =
  m_name :: string
  m_tracker :: "TrackerControl option"
  m_checked :: bool
  m_started :: bool
  m_state :: DownloadState
  calls :: "call list"

definition do_call :: "call list \<Rightarrow> Download \<Rightarrow> Download" where
  "do_call cs d = d\<lparr>calls := calls d @ cs\<rparr>"

section \<open>start and stop\<close>

text \<open>\<open>now\<close> is \<open>Timer::current()\<close>.\<close>

definition start :: "int \<Rightarrow> Download \<Rightarrow> Download" where
  "start now d =
     (if m_started d then d
      else
        let d1 = (if m_checked d then do_call [Tracker_send_state TRACKER_STARTED] d else d);
            d2 = d1\<lparr>m_started := True\<rparr>
        in do_call [InsertService (now + chokeCycle (settings (m_state d2)) * 2) CHOKE_CYCLE] d2)"

definition stop :: "Download \<Rightarrow> Download" where
  "stop d =
     (if \<not> m_started d then d
      else
        let d1 = do_call [Tracker_send_state TRACKER_STOPPED] d;
            d2 = d1\<lparr>m_started := False\<rparr>
        in do_call [RemoveService CHOKE_CYCLE] d2)"

section \<open>service\<close>

text \<open>
  The variables \<open>f\<close> and \<open>g\<close> of \<open>service\<close> are of type \<open>float\<close>. Every value they
  take is a whole number that is not negative (zero, \<open>numeric_limits<float>::max()\<close> or
  an unsigned integer converted to \<open>float\<close>), so a \<open>float\<close> is modelled by the natural
  number it stands for, and \<open>\<le>\<close> on floats by \<open>\<le>\<close> on these numbers.

  \<open>std::numeric_limits<float>::max()\<close>, the largest finite single-precision value:
\<close>

definition float_max :: nat where
  "float_max = 340282346638528859811704183484516925440"

text \<open>
  The conversion of an unsigned integer to \<open>float\<close>. A \<open>float\<close> has a significand of
  24 bits: integers below \<open>2^24\<close> are kept as they are, a larger one is rounded to the
  nearest multiple of \<open>2^e\<close>, where \<open>e\<close> is the number of bits it has beyond 24, and of
  two nearest multiples the one with the even significand is taken (IEEE 754 binary32
  in the default rounding mode).
\<close>

fun float_exponent :: "nat \<Rightarrow> nat" where
  "float_exponent n = (if n < 2 ^ 24 then 0 else Suc (float_exponent (n div 2)))"

declare float_exponent.simps [simp del]

definition float_of_nat :: "nat \<Rightarrow> nat" where
  "float_of_nat n =
     (if n < 2 ^ 24 then n
      else
        let e = float_exponent n; q = n div 2 ^ e; r = n mod 2 ^ e; h = 2 ^ (e - 1)
        in if r < h \<or> (r = h \<and> even q) then q * 2 ^ e else (q + 1) * 2 ^ e)"

text \<open>
  The value of \<open>g\<close> in the first loop: \<open>down().rate() * 16 + up().rate()\<close>, computed on
  unsigned integers and then stored in the \<open>float\<close>.
\<close>

definition choke_score :: "PeerConnection \<Rightarrow> nat" where
  "choke_score c = float_of_nat (unat (throttle_down_rate c * 16 + throttle_up_rate c))"

text \<open>The value of \<open>g\<close> in the second loop: \<open>down().rate()\<close>, stored in the \<open>float\<close>.\<close>

definition unchoke_rate :: "PeerConnection \<Rightarrow> nat" where
  "unchoke_rate c = float_of_nat (unat (throttle_down_rate c))"

text \<open>
  The first loop of the choke cycle ("Candidates for choking"). The arguments are
  the settings, \<open>Timer::cache()\<close>, the connections still to visit, the position of the
  first of them, and the variables \<open>f\<close> and \<open>p1\<close>.
\<close>

fun choke_loop ::
  "Settings \<Rightarrow> int \<Rightarrow> PeerConnection list \<Rightarrow> nat \<Rightarrow> nat \<times> nat option \<Rightarrow> nat \<times> nat option"
where
  "choke_loop st cache [] i (f, p1) = (f, p1)"
| "choke_loop st cache (c # cs) i (f, p1) =
     (if \<not> up_c_choked c \<and> lastChoked c + chokeGracePeriod st < cache \<and> choke_score c \<le> f
      then choke_loop st cache cs (Suc i) (choke_score c, Some i)
      else choke_loop st cache cs (Suc i) (f, p1))"

text \<open>The second loop ("Candidates for unchoking"), on \<open>f\<close> and \<open>p2\<close>.\<close>

fun unchoke_loop :: "PeerConnection list \<Rightarrow> nat \<Rightarrow> nat \<times> nat option \<Rightarrow> nat \<times> nat option"
where
  "unchoke_loop [] i (f, p2) = (f, p2)"
| "unchoke_loop (c # cs) i (f, p2) =
     (if up_c_choked c \<and> down_c_interested c \<and> unchoke_rate c \<ge> f
      then unchoke_loop cs (Suc i) (unchoke_rate c, Some i)
      else unchoke_loop cs (Suc i) (f, p2))"

text \<open>\<open>p1\<close> and \<open>p2\<close> as the two loops leave them.\<close>

definition choke_candidate :: "Settings \<Rightarrow> int \<Rightarrow> PeerConnection list \<Rightarrow> nat option" where
  "choke_candidate st cache cs = snd (choke_loop st cache cs 0 (float_max, None))"

definition unchoke_candidate :: "PeerConnection list \<Rightarrow> nat option" where
  "unchoke_candidate cs = snd (unchoke_loop cs 0 (0, None))"

text \<open>
  The case \<open>CHOKE_CYCLE\<close>. \<open>cache\<close> is \<open>Timer::cache()\<close> and \<open>s\<close> is the value that
  \<open>state().canUnchoke()\<close> returns at this tick (\<open>DownloadState\<close> is not in src).
\<close>

definition service_choke_cycle :: "int \<Rightarrow> int \<Rightarrow> Download \<Rightarrow> Download" where
  "service_choke_cycle cache s d =
     (let d1 = do_call [InsertService (cache + chokeCycle (settings (m_state d))) CHOKE_CYCLE,
                        RateUp_rate, RateDown_rate] d
      in if s > 0 then d1
         else
           let cs = connections (m_state d1);
               p1 = choke_candidate (settings (m_state d1)) cache cs;
               p2 = unchoke_candidate cs
           in case p1 of
                None \<Rightarrow> d1
              | Some i \<Rightarrow>
                 (case p2 of
                    None \<Rightarrow> d1
                  | Some j \<Rightarrow>
                      let cs1 = cs[i := choke cache True (cs ! i)];
                          cs2 = cs1[j := choke cache False (cs1 ! j)]
                      in do_call [Choke i True, Choke j False]
                           (d1\<lparr>m_state := (m_state d1)\<lparr>connections := cs2\<rparr>\<rparr>)))"

text \<open>The case \<open>HASH_COMPLETED\<close>.\<close>

definition service_hash_completed :: "Download \<Rightarrow> exn option \<times> Download" where
  "service_hash_completed d =
     (let d1 = do_call [Files_resizeAll] (d\<lparr>m_checked := True\<rparr>);
          fs = files (m_state d1)
      in if chunkCompleted fs = chunkcount fs \<and> \<not> allSet (bitfield fs)
         then (Some (internal_error ''Loaded torrent is done but bitfield isn't all set''), d1)
         else if m_started d1
         then (None, do_call [Tracker_send_state TRACKER_STARTED] d1)
         else (None, d1))"

text \<open>
  \<open>service\<close> returns the exception it throws, if any, and the object as the call
  leaves it.
\<close>

fun service :: "int \<Rightarrow> int \<Rightarrow> service_type \<Rightarrow> Download \<Rightarrow> exn option \<times> Download" where
  "service cache s HASH_COMPLETED d = service_hash_completed d"
| "service cache s CHOKE_CYCLE d = (None, service_choke_cycle cache s d)"
| "service cache s (OTHER n) d =
     (Some (internal_error ''Download::service called with bad argument''), d)"

section \<open>add_peers\<close>

text \<open>
  The loop of \<open>add_peers\<close> over the candidates, on \<open>m_state.available_peers()\<close>.
  \<open>conns\<close> is \<open>m_state.connections()\<close> and \<open>hs\<close> the peers of
  \<open>PeerHandshake::handshakes()\<close>; each \<open>std::find_if\<close> is a \<open>list_ex\<close>.
\<close>

definition known_peer :: "PeerConnection list \<Rightarrow> Peer list \<Rightarrow> Peer list \<Rightarrow> Peer \<Rightarrow> bool" where
  "known_peer conns hs avail p =
     (list_ex (\<lambda>c. is_same_host (peer c) p) conns \<or>
      list_ex (\<lambda>h. is_same_host h p) hs \<or>
      list_ex (\<lambda>a. is_same_host a p) avail)"

fun add_peers_loop :: "PeerConnection list \<Rightarrow> Peer list \<Rightarrow> Peer list \<Rightarrow> Peer list \<Rightarrow> Peer list"
where
  "add_peers_loop conns hs avail [] = avail"
| "add_peers_loop conns hs avail (p # ps) =
     (if known_peer conns hs avail p
      then add_peers_loop conns hs avail ps
      else add_peers_loop conns hs (avail @ [p]) ps)"

text \<open>
  \<open>add_peers\<close>; the closing \<open>m_state.connect_peers()\<close> belongs to \<open>DownloadState\<close>
  and is recorded as a call.
\<close>

definition add_peers :: "Peer list \<Rightarrow> Peer list \<Rightarrow> Download \<Rightarrow> Download" where
  "add_peers hs p d =
     do_call [Connect_peers]
       (d\<lparr>m_state := (m_state d)\<lparr>available_peers :=
            add_peers_loop (connections (m_state d)) hs (available_peers (m_state d)) p\<rparr>\<rparr>)"

section \<open>The constructor\<close>

text \<open>
  Modelled from the spec: the class \<open>bencode\<close> is declared outside src. The metadata
  parser returns structured fields: integers, strings, lists and dictionaries.
\<close>

datatype bencode =
    BInt int
  | BString string
  | BList "bencode list"
  | BMap "(string \<times> bencode) list"

text \<open>
  Modelled from the spec: \<open>bencode::operator[]\<close> and \<open>bencode::asString\<close> are declared
  outside src. Reading a key that a dictionary does not hold, indexing a value that is
  not a dictionary and reading a value that is not a string as a string throw
  \<open>bencode_error\<close>; \<open>Inl\<close> carries the text of \<open>what()\<close>, whose wording stands for
  that of bencode.cc.
\<close>

fun bencode_index :: "bencode \<Rightarrow> string \<Rightarrow> string + bencode" where
  "bencode_index (BMap m) k =
     (case map_of m k of
        None \<Rightarrow> Inl (''could not find element '' @ k)
      | Some v \<Rightarrow> Inr v)"
| "bencode_index (BInt n) k = Inl (''not a map, indexed with '' @ k)"
| "bencode_index (BString s) k = Inl (''not a map, indexed with '' @ k)"
| "bencode_index (BList l) k = Inl (''not a map, indexed with '' @ k)"

fun asString :: "bencode \<Rightarrow> string + string" where
  "asString (BString s) = Inr s"
| "asString (BInt n) = Inl ''not a string''"
| "asString (BList l) = Inl ''not a string''"
| "asString (BMap m) = Inl ''not a string''"

text \<open>
  What the constructor obtains from code outside src.
  Modelled from the spec: \<open>files().set\<close> reads the info dictionary and either fails
  with the parse error \<open>bencode_error\<close> (\<open>Inl\<close>) or yields the file layout; the storage
  layer's \<open>openAll\<close> either succeeds or fails with an I/O error, a \<open>local_error\<close>
  (\<open>Some\<close>). \<open>generateId()\<close>, \<open>Listen::port()\<close> and \<open>calcHash\<close> return values.
\<close>

record Ctor_env =
  files_set :: "bencode \<Rightarrow> string + Files"
  files_openAll :: "string option"
  generateId :: string
  Listen_port :: nat
  calcHash :: "bencode \<Rightarrow> string"

text \<open>
  The object when the body of the constructor is entered: the initialiser list has set
  \<open>m_tracker\<close>, \<open>m_checked\<close> and \<open>m_started\<close>; \<open>st0\<close> is \<open>m_state\<close> as the default
  constructor of \<open>DownloadState\<close> (not in src) leaves it.
\<close>

definition Download_init :: "DownloadState \<Rightarrow> Download" where
  "Download_init st0 =
     \<lparr>m_name = [], m_tracker = None, m_checked = False, m_started = False,
      m_state = st0, calls = []\<rparr>"

text \<open>
  The \<open>try\<close> block, statement by statement. It returns the exception that leaves the
  block, if any, and the object as it is at that moment. \<open>openAll\<close> may have opened
  some files before it fails, so the files count as opened from the call on.
\<close>

definition ctor_try :: "Ctor_env \<Rightarrow> bencode \<Rightarrow> Download \<Rightarrow> exn option \<times> Download" where
  "ctor_try env b d =
     (case bencode_index b ''info'' of
        Inl w \<Rightarrow> (Some (bencode_error w), d)
      | Inr info \<Rightarrow>
     (case bencode_index info ''name'' of
        Inl w \<Rightarrow> (Some (bencode_error w), d)
      | Inr nm \<Rightarrow>
     (case asString nm of
        Inl w \<Rightarrow> (Some (bencode_error w), d)
      | Inr name \<Rightarrow>
     (let d1 = do_call [Files_set] (d\<lparr>m_name := name\<rparr>) in
      case files_set env info of
        Inl w \<Rightarrow> (Some (bencode_error w), d1)
      | Inr fs \<Rightarrow>
     (let d2 = d1\<lparr>m_state := (m_state d1)\<lparr>files := fs\<rparr>\<rparr>;
          d3 = do_call [Files_openAll]
                 (d2\<lparr>m_state := (m_state d2)\<lparr>files := (files (m_state d2))\<lparr>f_opened := True\<rparr>\<rparr>\<rparr>) in
      case files_openAll env of
        Some w \<Rightarrow> (Some (local_error w), d3)
      | None \<Rightarrow>
     (let st = m_state d3;
          st1 = st\<lparr>me := \<lparr>p_id = generateId env, p_dns = [], p_port = Listen_port env\<rparr>\<rparr>;
          st2 = st1\<lparr>hash := calcHash env info\<rparr>;
          st3 = st2\<lparr>bfCounter := replicate (chunkcount (files st2)) 0\<rparr>;
          d4 = do_call [New_TrackerControl]
                 (d3\<lparr>m_state := st3,
                     m_tracker := Some \<lparr>t_me = me st3, t_hash = hash st3, t_urls = []\<rparr>\<rparr>) in
      case bencode_index b ''announce'' of
        Inl w \<Rightarrow> (Some (bencode_error w), d4)
      | Inr a \<Rightarrow>
     (case asString a of
        Inl w \<Rightarrow> (Some (bencode_error w), d4)
      | Inr url \<Rightarrow>
          (None,
           do_call [Tracker_add_url url, Signal_connect ''signal_peers'',
                    Signal_connect ''signal_stats'', Signal_connect ''signal_failed'',
                    FilesCheck_check HASH_COMPLETED]
             (d4\<lparr>m_tracker := Some \<lparr>t_me = me st3, t_hash = hash st3, t_urls = [url]\<rparr>\<rparr>)))))))))"

text \<open>What both handlers do first: \<open>state().files().closeAll(); delete m_tracker;\<close>\<close>

definition ctor_release :: "Download \<Rightarrow> Download" where
  "ctor_release d =
     do_call [Files_closeAll, Delete_tracker]
       (d\<lparr>m_state := (m_state d)\<lparr>files := (files (m_state d))\<lparr>f_opened := False\<rparr>\<rparr>,
          m_tracker := None\<rparr>)"

text \<open>
  The constructor. \<open>reg\<close> is the static \<open>Download::m_downloads\<close>, a list of pointers
  (addresses). The result is the exception thrown, if any, the object (which the
  caller only gets when nothing is thrown) and \<open>m_downloads\<close>. An \<open>internal_error\<close>
  would pass both handlers.
\<close>

definition Download_ctor ::
  "Ctor_env \<Rightarrow> DownloadState \<Rightarrow> bencode \<Rightarrow> nat list \<Rightarrow> exn option \<times> Download \<times> nat list"
where
  \<open>Download_ctor env st0 b reg =
     (case ctor_try env b (Download_init st0) of
        (None, d) \<Rightarrow> (None, d, reg)
      | (Some (bencode_error w), d) \<Rightarrow>
          (Some (local_error (''Bad torrent file "'' @ w @ ''"'')), ctor_release d, reg)
      | (Some (local_error w), d) \<Rightarrow> (Some (local_error w), ctor_release d, reg)
      | (Some (internal_error w), d) \<Rightarrow> (Some (internal_error w), d, reg))\<close>

section \<open>Conditions of the two loops\<close>

text \<open>
  The connections the first loop considers: not choked by us, and the last change of
  the choke state lies more than the grace period before \<open>Timer::cache()\<close>.
\<close>

definition choke_eligible :: "Settings \<Rightarrow> int \<Rightarrow> PeerConnection \<Rightarrow> bool" where
  "choke_eligible st cache c =
     (\<not> up_c_choked c \<and> lastChoked c + chokeGracePeriod st < cache)"

text \<open>The connections the second loop considers: choked by us, and the peer is interested.\<close>

definition unchoke_eligible :: "PeerConnection \<Rightarrow> bool" where
  "unchoke_eligible c = (up_c_choked c \<and> down_c_interested c)"

text \<open>
  What holds of \<open>f\<close> and \<open>p1\<close> after the first loop has run over \<open>cs\<close> from
  \<open>(f0, NULL)\<close>, and of \<open>f\<close> and \<open>p2\<close> after the second.
\<close>

definition choke_inv ::
  "Settings \<Rightarrow> int \<Rightarrow> nat \<Rightarrow> PeerConnection list \<Rightarrow> nat \<times> nat option \<Rightarrow> bool" where
  "choke_inv st cache f0 cs r =
    (case snd r of
       None \<Rightarrow> fst r = f0 \<and>
         (\<forall>j<length cs. choke_eligible st cache (cs ! j) \<longrightarrow> f0 < choke_score (cs ! j))
     | Some k \<Rightarrow> k < length cs \<and> choke_eligible st cache (cs ! k) \<and>
         fst r = choke_score (cs ! k) \<and> choke_score (cs ! k) \<le> f0 \<and>
         (\<forall>j<length cs. choke_eligible st cache (cs ! j) \<longrightarrow>
             choke_score (cs ! k) \<le> choke_score (cs ! j)) \<and>
         (\<forall>j<length cs. k < j \<longrightarrow> choke_eligible st cache (cs ! j) \<longrightarrow>
             choke_score (cs ! k) < choke_score (cs ! j)))"

definition unchoke_inv :: "nat \<Rightarrow> PeerConnection list \<Rightarrow> nat \<times> nat option \<Rightarrow> bool" where
  "unchoke_inv f0 cs r =
    (case snd r of
       None \<Rightarrow> fst r = f0 \<and>
         (\<forall>j<length cs. unchoke_eligible (cs ! j) \<longrightarrow> unchoke_rate (cs ! j) < f0)
     | Some k \<Rightarrow> k < length cs \<and> unchoke_eligible (cs ! k) \<and>
         fst r = unchoke_rate (cs ! k) \<and> f0 \<le> unchoke_rate (cs ! k) \<and>
         (\<forall>j<length cs. unchoke_eligible (cs ! j) \<longrightarrow>
             unchoke_rate (cs ! j) \<le> unchoke_rate (cs ! k)) \<and>
         (\<forall>j<length cs. k < j \<longrightarrow> unchoke_eligible (cs ! j) \<longrightarrow>
             unchoke_rate (cs ! j) < unchoke_rate (cs ! k)))"

text \<open>
  The calls every choke cycle makes before it looks at \<open>canUnchoke()\<close>: the next cycle
  is inserted, then the two rates of the download are read.
\<close>

definition cycle_prologue :: "int \<Rightarrow> Download \<Rightarrow> call list" where
  "cycle_prologue cache d =
     [InsertService (cache + chokeCycle (settings (m_state d))) CHOKE_CYCLE,
      RateUp_rate, RateDown_rate]"

section \<open>Concrete inputs\<close>

text \<open>
  A connection to port \<open>port\<close> of one host, with the choke flag, the interest flag, the
  time of the last choke change and the two rates given.
\<close>

definition example_connection ::
  "nat \<Rightarrow> bool \<Rightarrow> bool \<Rightarrow> int \<Rightarrow> 32 word \<Rightarrow> 32 word \<Rightarrow> PeerConnection" where
  "example_connection port choked interested lc down up =
     \<lparr>peer = \<lparr>p_id = [], p_dns = ''10.0.0.1'', p_port = port\<rparr>,
      up_c_choked = choked, down_c_interested = interested, lastChoked = lc,
      throttle_down_rate = down, throttle_up_rate = up\<rparr>"

definition example_settings :: Settings where
  "example_settings = \<lparr>chokeCycle = 30, chokeGracePeriod = 10\<rparr>"

definition example_state :: "PeerConnection list \<Rightarrow> Peer list \<Rightarrow> DownloadState" where
  "example_state cs avail =
     \<lparr>files = \<lparr>f_opened = True, chunkCompleted = 2, chunkcount = 4,
               bitfield = [True, False, True, False]\<rparr>,
      me = \<lparr>p_id = ''me'', p_dns = [], p_port = 6881\<rparr>,
      hash = ''h'', bfCounter = [0, 0, 0, 0],
      connections = cs, available_peers = avail, settings = example_settings\<rparr>"

definition example_download :: "bool \<Rightarrow> PeerConnection list \<Rightarrow> Download" where
  "example_download started cs =
     \<lparr>m_name = ''t'',
      m_tracker = Some \<lparr>t_me = \<lparr>p_id = ''me'', p_dns = [], p_port = 6881\<rparr>,
                        t_hash = ''h'', t_urls = [''u'']\<rparr>,
      m_checked = True, m_started = started, m_state = example_state cs [], calls = []\<rparr>"

text \<open>
  Five connections at time 100: one unchoked since time 0 with score \<open>16 * 6 + 4 = 100\<close>,
  four choked and interested. In the first list the four have the upload rates 1, 2, 3, 4
  and the download rates 4, 3, 2, 1; in the second the download rates 1, 2, 3, 4.
\<close>

definition scenario_up_1234 :: "PeerConnection list" where
  "scenario_up_1234 =
     [example_connection 1 False False 0 6 4,
      example_connection 2 True True 0 4 1,
      example_connection 3 True True 0 3 2,
      example_connection 4 True True 0 2 3,
      example_connection 5 True True 0 1 4]"

definition scenario_down_1234 :: "PeerConnection list" where
  "scenario_down_1234 =
     [example_connection 1 False False 0 6 4,
      example_connection 2 True True 0 1 0,
      example_connection 3 True True 0 2 0,
      example_connection 4 True True 0 3 0,
      example_connection 5 True True 0 4 0]"

text \<open>Two connections with equal rates, both choked and interested, or both unchoked.\<close>

definition unchoke_tie :: "PeerConnection list" where
  "unchoke_tie = [example_connection 1 True True 0 5 5, example_connection 2 True True 0 5 5]"

definition choke_tie :: "PeerConnection list" where
  "choke_tie = [example_connection 1 False False 0 1 1, example_connection 2 False False 0 1 1]"

text \<open>
  Two unchoked connections whose weighted sums are \<open>2^24\<close> and \<open>2^24 + 1\<close>, and two choked
  and interested ones whose rates are \<open>2^24 + 1\<close> and \<open>2^24\<close>. As a \<open>float\<close> each of
  the four numbers is \<open>2^24\<close>.
\<close>

definition choke_rounding :: "PeerConnection list" where
  "choke_rounding =
     [example_connection 1 False False 0 1048576 0, example_connection 2 False False 0 1048576 1]"

definition unchoke_rounding :: "PeerConnection list" where
  "unchoke_rounding =
     [example_connection 1 True True 0 16777217 16777217,
      example_connection 2 True True 0 16777216 16777216]"

text \<open>One unchoked connection past the grace period and no choked one.\<close>

definition only_unchoked :: "PeerConnection list" where
  "only_unchoked = [example_connection 1 False True 0 6 4]"

text \<open>
  A download whose storage reports all four chunks completed while one bit of the
  bitfield is clear; it has been started and not yet checked.
\<close>

definition desync_download :: Download where
  "desync_download =
     (example_download True [])
       \<lparr>m_checked := False,
        m_state := (example_state [] [])
          \<lparr>files := \<lparr>f_opened = True, chunkCompleted = 4, chunkcount = 4,
                     bitfield = [True, True, False, True]\<rparr>\<rparr>\<rparr>"

section \<open>Concrete inputs for add_peers and the constructor\<close>

definition example_peer :: "string \<Rightarrow> string \<Rightarrow> nat \<Rightarrow> Peer" where
  "example_peer ident host port = \<lparr>p_id = ident, p_dns = host, p_port = port\<rparr>"

text \<open>
  A download with one live connection (10.0.0.1:1) and one queued candidate
  (10.0.0.3:1), and a handshake in progress with 10.0.0.2:1.
\<close>

definition pools_download :: Download where
  "pools_download =
     (example_download True [example_connection 1 False False 0 0 0])
       \<lparr>m_state := example_state [example_connection 1 False False 0 0 0]
                     [example_peer ''q'' ''10.0.0.3'' 1]\<rparr>"

definition pools_handshakes :: "Peer list" where
  "pools_handshakes = [example_peer ''h'' ''10.0.0.2'' 1]"

text \<open>
  Seven candidates: one for each of the three pools, three new hosts, and a second
  candidate for the first new host under another id.
\<close>

definition mixed_candidates :: "Peer list" where
  "mixed_candidates =
     [example_peer ''a'' ''10.0.0.1'' 1,
      example_peer ''b'' ''10.0.0.7'' 1,
      example_peer ''c'' ''10.0.0.2'' 1,
      example_peer ''d'' ''10.0.0.8'' 1,
      example_peer ''e'' ''10.0.0.7'' 1,
      example_peer ''f'' ''10.0.0.3'' 1,
      example_peer ''g'' ''10.0.0.7'' 2]"

text \<open>
  The words of the spec on malformed metadata: the info dictionary, the name in it or
  the announce URL is missing or of the wrong type, or the storage layer cannot read the
  info dictionary.
\<close>

definition metadata_malformed :: "Ctor_env \<Rightarrow> bencode \<Rightarrow> bool" where
  "metadata_malformed env b =
     (case bencode_index b ''info'' of
        Inl w \<Rightarrow> True
      | Inr info \<Rightarrow>
         (case bencode_index info ''name'' of
            Inl w \<Rightarrow> True
          | Inr nm \<Rightarrow>
             (case asString nm of
                Inl w \<Rightarrow> True
              | Inr n \<Rightarrow>
                 (case files_set env info of
                    Inl w \<Rightarrow> True
                  | Inr fs \<Rightarrow>
                     (case bencode_index b ''announce'' of
                        Inl w \<Rightarrow> True
                      | Inr a \<Rightarrow> (case asString a of Inl w \<Rightarrow> True | Inr u \<Rightarrow> False))))))"

definition example_env :: Ctor_env where
  "example_env =
     \<lparr>files_set = (\<lambda>info. Inr \<lparr>f_opened = False, chunkCompleted = 0, chunkcount = 4,
                              bitfield = [False, False, False, False]\<rparr>),
      files_openAll = None,
      generateId = ''-id-'',
      Listen_port = 6881,
      calcHash = (\<lambda>info. ''h'')\<rparr>"

definition example_state0 :: DownloadState where
  "example_state0 =
     \<lparr>files = \<lparr>f_opened = False, chunkCompleted = 0, chunkcount = 0, bitfield = []\<rparr>,
      me = \<lparr>p_id = [], p_dns = [], p_port = 0\<rparr>,
      hash = [], bfCounter = [],
      connections = [], available_peers = [], settings = example_settings\<rparr>"

definition torrent_no_info :: bencode where
  "torrent_no_info = BMap [(''announce'', BString ''http://tracker/announce'')]"

definition torrent_no_announce :: bencode where
  "torrent_no_announce = BMap [(''info'', BMap [(''name'', BString ''file'')])]"

definition torrent_complete :: bencode where
  "torrent_complete =
     BMap [(''announce'', BString ''http://tracker/announce''),
           (''info'', BMap [(''name'', BString ''file'')])]"

section \<open>The two loops\<close>

lemmas example_defs =
  example_connection_def example_settings_def example_state_def example_download_def
  scenario_up_1234_def scenario_down_1234_def unchoke_tie_def choke_tie_def only_unchoked_def
  choke_rounding_def unchoke_rounding_def

lemmas cycle_defs =
  service_choke_cycle_def choke_candidate_def unchoke_candidate_def choke_eligible_def
  unchoke_eligible_def choke_score_def unchoke_rate_def float_of_nat_def float_max_def
  choke_def do_call_def cycle_prologue_def

text \<open>
  The conversion keeps integers below \<open>2^24\<close>, at most doubles its argument, and so
  takes no 32-bit integer beyond the largest \<open>float\<close>.
\<close>

lemma float_of_nat_exact: "n < 2 ^ 24 \<Longrightarrow> float_of_nat n = n"
  by (simp add: float_of_nat_def)





text \<open>Both loops run left to right, so a list can be processed in two parts.\<close>

lemma choke_loop_append:
  "choke_loop st cache (xs @ ys) i acc =
   choke_loop st cache ys (i + length xs) (choke_loop st cache xs i acc)"
proof (induction xs arbitrary: i acc)
  case Nil
  show ?case by (cases acc) simp
next
  case (Cons x xs)
  obtain f p where acc: "acc = (f, p)" by (cases acc)
  show ?case unfolding acc by (simp add: Cons.IH)
qed

lemma choke_loop_snoc:
  "choke_loop st cache (xs @ [c]) 0 acc =
     (if choke_eligible st cache c \<and> choke_score c \<le> fst (choke_loop st cache xs 0 acc)
      then (choke_score c, Some (length xs))
      else choke_loop st cache xs 0 acc)"
  by (cases "choke_loop st cache xs 0 acc")
     (simp add: choke_loop_append choke_eligible_def)

lemma choke_loop_inv: "choke_inv st cache f0 cs (choke_loop st cache cs 0 (f0, None))"
proof (induction cs rule: rev_induct)
  case Nil
  show ?case by (simp add: choke_inv_def)
next
  case (snoc c xs)
  obtain f1 p1 where r: "choke_loop st cache xs 0 (f0, None) = (f1, p1)"
    by (cases "choke_loop st cache xs 0 (f0, None)")
  show ?case
  proof (cases "choke_eligible st cache c \<and> choke_score c \<le> f1")
    case True
    have "choke_inv st cache f0 (xs @ [c]) (choke_score c, Some (length xs))"
      using snoc.IH True unfolding r choke_inv_def
      by (cases p1) (auto simp: nth_append less_Suc_eq)
    then show ?thesis using True r by (simp add: choke_loop_snoc)
  next
    case False
    have "choke_inv st cache f0 (xs @ [c]) (f1, p1)"
      using snoc.IH False unfolding r choke_inv_def
      by (cases p1) (auto simp: nth_append less_Suc_eq)
    then show ?thesis unfolding choke_loop_snoc r using False by auto
  qed
qed

lemma unchoke_loop_append:
  "unchoke_loop (xs @ ys) i acc = unchoke_loop ys (i + length xs) (unchoke_loop xs i acc)"
proof (induction xs arbitrary: i acc)
  case Nil
  show ?case by (cases acc) simp
next
  case (Cons x xs)
  obtain f p where acc: "acc = (f, p)" by (cases acc)
  show ?case unfolding acc by (simp add: Cons.IH)
qed

lemma unchoke_loop_snoc:
  "unchoke_loop (xs @ [c]) 0 acc =
     (if unchoke_eligible c \<and> fst (unchoke_loop xs 0 acc) \<le> unchoke_rate c
      then (unchoke_rate c, Some (length xs))
      else unchoke_loop xs 0 acc)"
  by (cases "unchoke_loop xs 0 acc")
     (simp add: unchoke_loop_append unchoke_eligible_def)

lemma unchoke_loop_inv: "unchoke_inv f0 cs (unchoke_loop cs 0 (f0, None))"
proof (induction cs rule: rev_induct)
  case Nil
  show ?case by (simp add: unchoke_inv_def)
next
  case (snoc c xs)
  obtain f1 p1 where r: "unchoke_loop xs 0 (f0, None) = (f1, p1)"
    by (cases "unchoke_loop xs 0 (f0, None)")
  show ?case
  proof (cases "unchoke_eligible c \<and> f1 \<le> unchoke_rate c")
    case True
    have "unchoke_inv f0 (xs @ [c]) (unchoke_rate c, Some (length xs))"
      using snoc.IH True unfolding r unchoke_inv_def
      by (cases p1) (auto simp: nth_append less_Suc_eq)
    then show ?thesis using True r by (simp add: unchoke_loop_snoc)
  next
    case False
    have "unchoke_inv f0 (xs @ [c]) (f1, p1)"
      using snoc.IH False unfolding r unchoke_inv_def
      by (cases p1) (auto simp: nth_append less_Suc_eq)
    then show ?thesis unfolding unchoke_loop_snoc r using False by auto
  qed
qed

lemma choke_candidate_inv:
  "choke_inv st cache float_max cs
     (fst (choke_loop st cache cs 0 (float_max, None)), choke_candidate st cache cs)"
  using choke_loop_inv [of st cache float_max cs] by (simp add: choke_candidate_def)

lemma unchoke_candidate_inv:
  "unchoke_inv 0 cs (fst (unchoke_loop cs 0 (0, None)), unchoke_candidate cs)"
  using unchoke_loop_inv [of 0 cs] by (simp add: unchoke_candidate_def)

text \<open>What one choke cycle appends to the calls, and what it does to the state.\<close>

lemma service_choke_cycle_calls:
  "calls (service_choke_cycle cache s d) =
     calls d @ cycle_prologue cache d @
     (if s > 0 then []
      else case choke_candidate (settings (m_state d)) cache (connections (m_state d)) of
             None \<Rightarrow> []
           | Some i \<Rightarrow> (case unchoke_candidate (connections (m_state d)) of
                          None \<Rightarrow> []
                        | Some j \<Rightarrow> [Choke i True, Choke j False]))"
  by (simp add: service_choke_cycle_def do_call_def cycle_prologue_def Let_def
      split: option.splits)

lemma service_choke_cycle_state:
  "m_state (service_choke_cycle cache s d) =
     (if s > 0 then m_state d
      else case choke_candidate (settings (m_state d)) cache (connections (m_state d)) of
             None \<Rightarrow> m_state d
           | Some i \<Rightarrow>
              (case unchoke_candidate (connections (m_state d)) of
                 None \<Rightarrow> m_state d
               | Some j \<Rightarrow> (m_state d)\<lparr>connections :=
                   ((connections (m_state d))[i := choke cache True (connections (m_state d) ! i)])
                     [j := choke cache False
                        (((connections (m_state d))
                            [i := choke cache True (connections (m_state d) ! i)]) ! j)]\<rparr>))"
  by (simp add: service_choke_cycle_def do_call_def Let_def split: option.splits)

section \<open>The choke cycle\<close>





text \<open>
  C1, as the code has it. The unchoke candidate \<open>p2\<close> is taken among the connections
  that are choked and whose peer is interested, and \<open>p2\<close> stays \<open>NULL\<close> exactly when
  there is none. It has the highest download rate among them (the upload rate is not
  read), where the rate is the value the \<open>float\<close> variable \<open>g\<close> holds:
  \<open>throttle().down().rate()\<close> itself as long as it is below \<open>2^24\<close>, and the rate rounded
  to 24 significant bits beyond. Of several with the highest rate the one visited last
  wins, because the loop replaces its candidate on \<open>\<ge>\<close>. In the scenario of five
  connections, the first unchoked, past the grace period and of score 100, the other four
  choked and interested with the download rates 1, 2, 3, 4, a tick with
  \<open>canUnchoke() \<le> 0\<close> chokes the first and unchokes the last.
\<close>

theorem unchoke_candidate_highest_download_rate_last:
  "(case unchoke_candidate cs of
      None \<Rightarrow> (\<forall>j<length cs. \<not> unchoke_eligible (cs ! j))
    | Some k \<Rightarrow>
        k < length cs \<and> unchoke_eligible (cs ! k) \<and>
        (\<forall>j<length cs. unchoke_eligible (cs ! j) \<longrightarrow>
            unchoke_rate (cs ! j) \<le> unchoke_rate (cs ! k)) \<and>
        (\<forall>j<length cs. k < j \<longrightarrow> unchoke_eligible (cs ! j) \<longrightarrow>
            unchoke_rate (cs ! j) < unchoke_rate (cs ! k))) \<and>
   (unat (throttle_down_rate c) < 2 ^ 24 \<longrightarrow> unchoke_rate c = unat (throttle_down_rate c)) \<and>
   (s \<le> 0 \<and> connections (m_state d) = [c0, c1, c2, c3, c4] \<and>
    choke_eligible (settings (m_state d)) cache c0 \<and> choke_score c0 = 100 \<and>
    list_all unchoke_eligible [c1, c2, c3, c4] \<and>
    map throttle_down_rate [c1, c2, c3, c4] = [1, 2, 3, 4] \<longrightarrow>
    unchoke_candidate (connections (m_state d)) = Some 4 \<and>
    calls (snd (service cache s CHOKE_CYCLE d)) =
      calls d @ cycle_prologue cache d @ [Choke 0 True, Choke 4 False] \<and>
    connections (m_state (snd (service cache s CHOKE_CYCLE d))) =
      [choke cache True c0, c1, c2, c3, choke cache False c4])"
proof (intro conjI impI)
  show "case unchoke_candidate cs of
      None \<Rightarrow> (\<forall>j<length cs. \<not> unchoke_eligible (cs ! j))
    | Some k \<Rightarrow>
        k < length cs \<and> unchoke_eligible (cs ! k) \<and>
        (\<forall>j<length cs. unchoke_eligible (cs ! j) \<longrightarrow>
            unchoke_rate (cs ! j) \<le> unchoke_rate (cs ! k)) \<and>
        (\<forall>j<length cs. k < j \<longrightarrow> unchoke_eligible (cs ! j) \<longrightarrow>
            unchoke_rate (cs ! j) < unchoke_rate (cs ! k))"
    using unchoke_candidate_inv [of cs]
    by (auto simp: unchoke_inv_def split: option.splits)
next
  assume "unat (throttle_down_rate c) < 2 ^ 24"
  then show "unchoke_rate c = unat (throttle_down_rate c)"
    by (simp add: unchoke_rate_def float_of_nat_exact)
next
  assume a: "s \<le> 0 \<and> connections (m_state d) = [c0, c1, c2, c3, c4] \<and>
    choke_eligible (settings (m_state d)) cache c0 \<and> choke_score c0 = 100 \<and>
    list_all unchoke_eligible [c1, c2, c3, c4] \<and>
    map throttle_down_rate [c1, c2, c3, c4] = [1, 2, 3, 4]"
  have p1: "choke_candidate (settings (m_state d)) cache (connections (m_state d)) = Some 0"
    using a by (simp add: choke_candidate_def choke_eligible_def unchoke_eligible_def
        float_max_def)
  show p2: "unchoke_candidate (connections (m_state d)) = Some 4"
    using a by (simp add: unchoke_candidate_def choke_eligible_def unchoke_eligible_def
        unchoke_rate_def float_of_nat_def)
  show "calls (snd (service cache s CHOKE_CYCLE d)) =
      calls d @ cycle_prologue cache d @ [Choke 0 True, Choke 4 False]"
    using a p1 p2 by (simp add: service_choke_cycle_calls)
  show "connections (m_state (snd (service cache s CHOKE_CYCLE d))) =
      [choke cache True c0, c1, c2, c3, choke cache False c4]"
    using a p1 p2 by (simp add: service_choke_cycle_state)
qed

text \<open>
  The scenario with the download rates 1, 2, 3, 4 at time 100: every hypothesis holds,
  the rates are below \<open>2^24\<close> and so are held exactly, and the tick chokes position 0 and
  unchokes position 4. A single unchoked connection gives no unchoke candidate.
\<close>

theorem unchoke_candidate_highest_download_rate_last_witness:
  "(0::int) \<le> 0 \<and>
   connections (m_state (example_download True scenario_down_1234)) = scenario_down_1234 \<and>
   choke_eligible example_settings 100 (scenario_down_1234 ! 0) \<and>
   choke_score (scenario_down_1234 ! 0) = 100 \<and>
   list_all unchoke_eligible (tl scenario_down_1234) \<and>
   map throttle_down_rate (tl scenario_down_1234) = [1, 2, 3, 4] \<and>
   unat (throttle_down_rate (scenario_down_1234 ! 4)) < 2 ^ 24 \<and>
   unchoke_rate (scenario_down_1234 ! 4) = 4 \<and>
   unchoke_candidate scenario_down_1234 = Some 4 \<and>
   (4::nat) < length scenario_down_1234 \<and>
   unchoke_candidate only_unchoked = None \<and>
   \<not> unchoke_eligible (only_unchoked ! 0) \<and>
   calls (snd (service 100 0 CHOKE_CYCLE (example_download True scenario_down_1234))) =
     [InsertService 130 CHOKE_CYCLE, RateUp_rate, RateDown_rate, Choke 0 True, Choke 4 False] \<and>
   map up_c_choked (connections (m_state (snd
      (service 100 0 CHOKE_CYCLE (example_download True scenario_down_1234))))) =
     [True, True, True, True, False]"
  using unchoke_candidate_highest_download_rate_last
    [where cs = scenario_down_1234 and s = 0 and cache = 100
       and c = "scenario_down_1234 ! 4"
       and d = "example_download True scenario_down_1234"
       and ?c0.0 = "example_connection 1 False False 0 6 4"
       and ?c1.0 = "example_connection 2 True True 0 1 0"
       and ?c2.0 = "example_connection 3 True True 0 2 0"
       and ?c3.0 = "example_connection 4 True True 0 3 0"
       and ?c4.0 = "example_connection 5 True True 0 4 0"]
  by (simp add: example_defs cycle_defs)

text \<open>
  C1 as stated fails. In the scenario with the upload rates 1, 2, 3, 4 (and the
  download rates 4, 3, 2, 1) the loop leaves \<open>p2\<close> at position 1, the peer of upload
  rate 1, and the tick unchokes that peer; the peer of upload rate 4, position 4, stays
  choked. Of two choked, interested connections with equal rates the second is chosen,
  not the first maximal element. And of two with the rates 16777217 and 16777216, both
  up and down, the second is chosen, whose rates are the lower ones: as a \<open>float\<close> both
  download rates are 16777216.
\<close>

theorem unchoke_candidate_upload_rate_counterexample:
  "unchoke_candidate scenario_up_1234 = Some 1 \<and>
   map throttle_up_rate scenario_up_1234 = [4, 1, 2, 3, 4] \<and>
   map unchoke_eligible scenario_up_1234 = [False, True, True, True, True] \<and>
   choke_eligible example_settings 100 (scenario_up_1234 ! 0) \<and>
   choke_score (scenario_up_1234 ! 0) = 100 \<and>
   map up_c_choked (connections (m_state (snd
      (service 100 0 CHOKE_CYCLE (example_download True scenario_up_1234))))) =
     [True, False, True, True, True] \<and>
   unchoke_candidate unchoke_tie = Some 1 \<and>
   unchoke_candidate unchoke_tie \<noteq> Some 0 \<and>
   unchoke_eligible (unchoke_tie ! 0) \<and>
   unchoke_eligible (unchoke_tie ! 1) \<and>
   throttle_up_rate (unchoke_tie ! 0) = throttle_up_rate (unchoke_tie ! 1) \<and>
   throttle_down_rate (unchoke_tie ! 0) = throttle_down_rate (unchoke_tie ! 1) \<and>
   unchoke_candidate unchoke_rounding = Some 1 \<and>
   unchoke_eligible (unchoke_rounding ! 0) \<and>
   unchoke_eligible (unchoke_rounding ! 1) \<and>
   map (\<lambda>c. unat (throttle_down_rate c)) unchoke_rounding = [16777217, 16777216] \<and>
   map (\<lambda>c. unat (throttle_up_rate c)) unchoke_rounding = [16777217, 16777216] \<and>
   map unchoke_rate unchoke_rounding = [16777216, 16777216]"
  by (simp add: example_defs cycle_defs float_exponent.simps)

text \<open>
  C4. When \<open>canUnchoke()\<close> is positive, a choke cycle throws nothing, leaves every
  connection, with its choke flag, as it was, and makes no call but the three of the
  prologue, none of which is a choke command; the rates of the connections play no part.
\<close>

theorem choke_cycle_noop_when_slack:
  "0 < s \<Longrightarrow>
   fst (service cache s CHOKE_CYCLE d) = None \<and>
   connections (m_state (snd (service cache s CHOKE_CYCLE d))) = connections (m_state d) \<and>
   calls (snd (service cache s CHOKE_CYCLE d)) = calls d @ cycle_prologue cache d \<and>
   (\<forall>i v. Choke i v \<notin> set (cycle_prologue cache d))"
  by (simp add: service_choke_cycle_calls service_choke_cycle_state cycle_prologue_def)

theorem choke_cycle_noop_when_slack_witness:
  "(0::int) < 1 \<and>
   choke_candidate example_settings 100 scenario_down_1234 = Some 0 \<and>
   unchoke_candidate scenario_down_1234 = Some 4 \<and>
   connections (m_state (snd (service 100 1 CHOKE_CYCLE (example_download True scenario_down_1234))))
     = scenario_down_1234 \<and>
   calls (snd (service 100 1 CHOKE_CYCLE (example_download True scenario_down_1234))) =
     [InsertService 130 CHOKE_CYCLE, RateUp_rate, RateDown_rate]"
  using choke_cycle_noop_when_slack
    [where s = 1 and cache = 100 and d = "example_download True scenario_down_1234"]
  by (simp add: example_defs cycle_defs)

text \<open>
  C5. In a choke cycle, when the choke candidate or the unchoke candidate is missing,
  every connection is left as it was and only the prologue's calls are made.
  When \<open>canUnchoke() \<le> 0\<close> and both candidates exist, they are two different
  connections, and exactly the two commands \<open>choke(true)\<close> on the first and
  \<open>choke(false)\<close> on the second are issued. So the calls a cycle adds hold a
  \<open>choke(true)\<close> if and only if they hold a \<open>choke(false)\<close>.
\<close>

theorem choke_cycle_swaps_both_or_none:
  "(choke_candidate (settings (m_state d)) cache (connections (m_state d)) = None \<or>
    unchoke_candidate (connections (m_state d)) = None \<longrightarrow>
      connections (m_state (snd (service cache s CHOKE_CYCLE d))) = connections (m_state d) \<and>
      calls (snd (service cache s CHOKE_CYCLE d)) = calls d @ cycle_prologue cache d) \<and>
   (\<forall>i j. s \<le> 0 \<and>
      choke_candidate (settings (m_state d)) cache (connections (m_state d)) = Some i \<and>
      unchoke_candidate (connections (m_state d)) = Some j \<longrightarrow>
      i \<noteq> j \<and>
      calls (snd (service cache s CHOKE_CYCLE d)) =
        calls d @ cycle_prologue cache d @ [Choke i True, Choke j False] \<and>
      connections (m_state (snd (service cache s CHOKE_CYCLE d))) =
        (connections (m_state d))
          [i := choke cache True (connections (m_state d) ! i),
           j := choke cache False (connections (m_state d) ! j)]) \<and>
   ((\<exists>i. Choke i True \<in> set (drop (length (calls d)) (calls (snd (service cache s CHOKE_CYCLE d)))))
    = (\<exists>j. Choke j False \<in> set (drop (length (calls d)) (calls (snd (service cache s CHOKE_CYCLE d))))))"
proof (intro conjI allI impI)
  assume "choke_candidate (settings (m_state d)) cache (connections (m_state d)) = None \<or>
    unchoke_candidate (connections (m_state d)) = None"
  then show "connections (m_state (snd (service cache s CHOKE_CYCLE d))) =
      connections (m_state d)"
    by (auto simp: service_choke_cycle_state split: option.splits)
next
  assume "choke_candidate (settings (m_state d)) cache (connections (m_state d)) = None \<or>
    unchoke_candidate (connections (m_state d)) = None"
  then show "calls (snd (service cache s CHOKE_CYCLE d)) = calls d @ cycle_prologue cache d"
    by (auto simp: service_choke_cycle_calls split: option.splits)
next
  fix i j
  assume a: "s \<le> 0 \<and>
      choke_candidate (settings (m_state d)) cache (connections (m_state d)) = Some i \<and>
      unchoke_candidate (connections (m_state d)) = Some j"
  have "\<not> up_c_choked (connections (m_state d) ! i)"
    using a choke_candidate_inv [of "settings (m_state d)" cache "connections (m_state d)"]
    by (simp add: choke_inv_def choke_eligible_def)
  moreover have "up_c_choked (connections (m_state d) ! j)"
    using a unchoke_candidate_inv [of "connections (m_state d)"]
    by (simp add: unchoke_inv_def unchoke_eligible_def)
  ultimately show ne: "i \<noteq> j" by auto
  show "calls (snd (service cache s CHOKE_CYCLE d)) =
        calls d @ cycle_prologue cache d @ [Choke i True, Choke j False]"
    using a by (simp add: service_choke_cycle_calls)
  show "connections (m_state (snd (service cache s CHOKE_CYCLE d))) =
        (connections (m_state d))
          [i := choke cache True (connections (m_state d) ! i),
           j := choke cache False (connections (m_state d) ! j)]"
    using a ne by (simp add: service_choke_cycle_state)
next
  show "(\<exists>i. Choke i True \<in> set (drop (length (calls d)) (calls (snd (service cache s CHOKE_CYCLE d)))))
    = (\<exists>j. Choke j False \<in> set (drop (length (calls d)) (calls (snd (service cache s CHOKE_CYCLE d)))))"
    by (auto simp: service_choke_cycle_calls cycle_prologue_def split: option.splits)
qed

text \<open>
  One unchoked connection past the grace period and no choked one: the choke candidate
  exists, the unchoke candidate does not, and the tick changes nothing. In the scenario
  with both candidates, positions 0 and 4, both commands are issued.
\<close>

theorem choke_cycle_swaps_both_or_none_witness:
  "choke_candidate example_settings 100 only_unchoked = Some 0 \<and>
   unchoke_candidate only_unchoked = None \<and>
   connections (m_state (snd (service 100 0 CHOKE_CYCLE (example_download True only_unchoked))))
     = only_unchoked \<and>
   calls (snd (service 100 0 CHOKE_CYCLE (example_download True only_unchoked))) =
     [InsertService 130 CHOKE_CYCLE, RateUp_rate, RateDown_rate] \<and>
   (0::int) \<le> 0 \<and>
   choke_candidate example_settings 100 scenario_down_1234 = Some 0 \<and>
   unchoke_candidate scenario_down_1234 = Some 4 \<and>
   calls (snd (service 100 0 CHOKE_CYCLE (example_download True scenario_down_1234))) =
     [InsertService 130 CHOKE_CYCLE, RateUp_rate, RateDown_rate, Choke 0 True, Choke 4 False]"
proof -
  have st: "settings (m_state (example_download True cs)) = example_settings"
    "connections (m_state (example_download True cs)) = cs"
    "calls (example_download True cs) = []" for cs
    by (simp_all add: example_download_def example_state_def)
  have a: "choke_candidate example_settings 100 only_unchoked = Some 0"
    "unchoke_candidate only_unchoked = None"
    by (simp_all add: example_defs cycle_defs)
  have b: "choke_candidate example_settings 100 scenario_down_1234 = Some 0"
    "unchoke_candidate scenario_down_1234 = Some 4"
    by (simp_all add: example_defs cycle_defs)
  have r1: "connections (m_state (snd (service 100 0 CHOKE_CYCLE
        (example_download True only_unchoked)))) =
      connections (m_state (example_download True only_unchoked)) \<and>
    calls (snd (service 100 0 CHOKE_CYCLE (example_download True only_unchoked))) =
      calls (example_download True only_unchoked) @
      cycle_prologue 100 (example_download True only_unchoked)"
    using choke_cycle_swaps_both_or_none
      [where s = 0 and cache = 100 and d = "example_download True only_unchoked"]
    by (simp only: st a) simp
  have r2: "calls (snd (service 100 0 CHOKE_CYCLE (example_download True scenario_down_1234))) =
      calls (example_download True scenario_down_1234) @
      cycle_prologue 100 (example_download True scenario_down_1234) @
      [Choke 0 True, Choke 4 False]"
    using choke_cycle_swaps_both_or_none
      [where s = 0 and cache = 100 and d = "example_download True scenario_down_1234"]
    by (simp only: st b) simp
  show ?thesis
    using a b r1 r2 by (simp add: st cycle_prologue_def example_settings_def)
qed

text \<open>
  C9. Every dispatch of \<open>CHOKE_CYCLE\<close> returns normally, and the first call it makes
  is \<open>insertService\<close> of the next \<open>CHOKE_CYCLE\<close> at \<open>Timer::cache()\<close> plus the configured
  interval; this holds for every value of \<open>canUnchoke()\<close> and every list of connections,
  and no other \<open>insertService\<close> follows in the same dispatch.
\<close>

theorem choke_cycle_reschedules_first:
  "fst (service cache s CHOKE_CYCLE d) = None \<and>
   (\<exists>rest. calls (snd (service cache s CHOKE_CYCLE d)) =
      calls d @ InsertService (cache + chokeCycle (settings (m_state d))) CHOKE_CYCLE # rest \<and>
      (\<forall>t ty. InsertService t ty \<notin> set rest))"
  by (auto simp: service_choke_cycle_calls cycle_prologue_def split: option.splits)

theorem choke_cycle_reschedules_first_witness:
  "fst (service 100 1 CHOKE_CYCLE (example_download True scenario_down_1234)) = None \<and>
   hd (calls (snd (service 100 1 CHOKE_CYCLE (example_download True scenario_down_1234)))) =
     InsertService (100 + 30) CHOKE_CYCLE \<and>
   hd (calls (snd (service 100 0 CHOKE_CYCLE (example_download True scenario_down_1234)))) =
     InsertService (100 + 30) CHOKE_CYCLE \<and>
   hd (calls (snd (service 100 0 CHOKE_CYCLE (example_download True only_unchoked)))) =
     InsertService (100 + 30) CHOKE_CYCLE"
  using choke_cycle_reschedules_first
    [where s = 1 and cache = 100 and d = "example_download True scenario_down_1234"]
  by (simp add: example_defs cycle_defs)

section \<open>Completion of the hash check\<close>

text \<open>
  C6. When \<open>HASH_COMPLETED\<close> is dispatched and the number of completed chunks equals the
  chunk count of the storage while the bitfield is not all set, \<open>service\<close> throws
  \<open>internal_error\<close>. By then it has set \<open>m_checked\<close> and called \<open>resizeAll\<close>; it makes
  no further call, so the tracker is not told that the download has started.
\<close>

theorem hash_completed_desync_throws:
  "chunkCompleted (files (m_state d)) = chunkcount (files (m_state d)) \<Longrightarrow>
   \<not> allSet (bitfield (files (m_state d))) \<Longrightarrow>
   fst (service cache s HASH_COMPLETED d) =
     Some (internal_error ''Loaded torrent is done but bitfield isn't all set'') \<and>
   calls (snd (service cache s HASH_COMPLETED d)) = calls d @ [Files_resizeAll] \<and>
   m_checked (snd (service cache s HASH_COMPLETED d))"
  by (simp add: service_hash_completed_def do_call_def Let_def)

theorem hash_completed_desync_throws_witness:
  "chunkCompleted (files (m_state desync_download)) = chunkcount (files (m_state desync_download)) \<and>
   \<not> allSet (bitfield (files (m_state desync_download))) \<and>
   m_started desync_download \<and>
   fst (service 100 0 HASH_COMPLETED desync_download) =
     Some (internal_error ''Loaded torrent is done but bitfield isn't all set'') \<and>
   calls (snd (service 100 0 HASH_COMPLETED desync_download)) = [Files_resizeAll]"
proof -
  have h1: "chunkCompleted (files (m_state desync_download)) =
            chunkcount (files (m_state desync_download))"
    by (simp add: desync_download_def example_defs)
  have h2: "\<not> allSet (bitfield (files (m_state desync_download)))"
    by (simp add: desync_download_def example_defs allSet_def)
  have h3: "m_started desync_download \<and> calls desync_download = []"
    by (simp add: desync_download_def example_defs)
  show ?thesis
    using hash_completed_desync_throws [OF h1 h2, of 100 0] h1 h2 h3 by simp
qed

section \<open>start and stop are idempotent\<close>

text \<open>
  C7. A second \<open>start()\<close> after a first leaves the download, with the calls it has made,
  as the first one left it, whatever \<open>Timer::current()\<close> is at the two calls; likewise
  for \<open>stop()\<close>. \<open>start()\<close> on a started download and \<open>stop()\<close> on a stopped one change
  nothing.
\<close>

theorem start_stop_idempotent:
  "start t2 (start t1 d) = start t1 d \<and>
   stop (stop d) = stop d \<and>
   (m_started d \<longrightarrow> start t1 d = d) \<and>
   (\<not> m_started d \<longrightarrow> stop d = d)"
  by (simp add: start_def stop_def do_call_def Let_def)

theorem start_stop_idempotent_witness:
  "\<not> m_started (example_download False []) \<and>
   stop (example_download False []) = example_download False [] \<and>
   calls (start 5 (example_download False [])) =
     [Tracker_send_state TRACKER_STARTED, InsertService 65 CHOKE_CYCLE] \<and>
   start 7 (start 5 (example_download False [])) = start 5 (example_download False []) \<and>
   m_started (example_download True []) \<and>
   start 5 (example_download True []) = example_download True [] \<and>
   calls (stop (example_download True [])) =
     [Tracker_send_state TRACKER_STOPPED, RemoveService CHOKE_CYCLE] \<and>
   stop (stop (example_download True [])) = stop (example_download True [])"
  using start_stop_idempotent [where ?t1.0 = 5 and ?t2.0 = 7 and d = "example_download False []"]
        start_stop_idempotent [where ?t1.0 = 5 and ?t2.0 = 7 and d = "example_download True []"]
  by (simp add: example_defs start_def stop_def do_call_def)

section \<open>Admission of candidates\<close>

lemmas pools_defs =
  example_peer_def pools_download_def pools_handshakes_def mixed_candidates_def

lemma known_peer_snoc:
  "known_peer conns hs (avail @ [p]) q = (known_peer conns hs avail q \<or> is_same_host p q)"
  by (auto simp: known_peer_def)

text \<open>The loop visits the candidates from left to right.\<close>

lemma add_peers_loop_append:
  "add_peers_loop conns hs avail (xs @ ys) =
     add_peers_loop conns hs (add_peers_loop conns hs avail xs) ys"
  by (induction xs arbitrary: avail) simp_all

text \<open>
  What the loop of \<open>add_peers\<close> appends: a subsequence \<open>S\<close> of the candidates, none of
  which matches an entry of the three pools, which holds every candidate that matches
  no entry and no earlier candidate, and in which no host occurs twice.
\<close>

lemma add_peers_loop_appends:
  "\<exists>S. add_peers_loop conns hs avail ps = avail @ S \<and> subseq S ps \<and>
       (\<forall>q\<in>set S. \<not> known_peer conns hs avail q) \<and>
       (\<forall>i<length ps. \<not> known_peer conns hs avail (ps ! i) \<longrightarrow>
           (\<forall>j<i. \<not> is_same_host (ps ! j) (ps ! i)) \<longrightarrow> ps ! i \<in> set S) \<and>
       distinct (map (\<lambda>p. (p_dns p, p_port p)) S)"
proof (induction ps arbitrary: avail)
  case Nil
  show ?case by simp
next
  case (Cons p ps)
  show ?case
  proof (cases "known_peer conns hs avail p")
    case True
    obtain S where S: "add_peers_loop conns hs avail ps = avail @ S" "subseq S ps"
      "\<forall>q\<in>set S. \<not> known_peer conns hs avail q"
      "\<forall>i<length ps. \<not> known_peer conns hs avail (ps ! i) \<longrightarrow>
           (\<forall>j<i. \<not> is_same_host (ps ! j) (ps ! i)) \<longrightarrow> ps ! i \<in> set S"
      "distinct (map (\<lambda>p. (p_dns p, p_port p)) S)"
      using Cons.IH [of avail] by blast
    have first: "\<forall>i<length (p # ps). \<not> known_peer conns hs avail ((p # ps) ! i) \<longrightarrow>
           (\<forall>j<i. \<not> is_same_host ((p # ps) ! j) ((p # ps) ! i)) \<longrightarrow> (p # ps) ! i \<in> set S"
    proof (intro allI impI)
      fix i
      assume i: "i < length (p # ps)" "\<not> known_peer conns hs avail ((p # ps) ! i)"
        "\<forall>j<i. \<not> is_same_host ((p # ps) ! j) ((p # ps) ! i)"
      show "(p # ps) ! i \<in> set S"
      proof (cases i)
        case 0
        then show ?thesis using i True by simp
      next
        case (Suc i')
        have "\<forall>j<i'. \<not> is_same_host (ps ! j) (ps ! i')"
          using i(3) Suc by auto
        then show ?thesis using S(4) i Suc by simp
      qed
    qed
    have "add_peers_loop conns hs avail (p # ps) = avail @ S"
      using True S(1) by simp
    moreover have "subseq S (p # ps)"
      using S(2) by (rule list_emb_Cons)
    ultimately show ?thesis using S(3) S(5) first by blast
  next
    case False
    obtain S where S: "add_peers_loop conns hs (avail @ [p]) ps = (avail @ [p]) @ S"
      "subseq S ps"
      "\<forall>q\<in>set S. \<not> known_peer conns hs (avail @ [p]) q"
      "\<forall>i<length ps. \<not> known_peer conns hs (avail @ [p]) (ps ! i) \<longrightarrow>
           (\<forall>j<i. \<not> is_same_host (ps ! j) (ps ! i)) \<longrightarrow> ps ! i \<in> set S"
      "distinct (map (\<lambda>p. (p_dns p, p_port p)) S)"
      using Cons.IH [of "avail @ [p]"] by blast
    have eq: "add_peers_loop conns hs avail (p # ps) = avail @ (p # S)"
      using False S(1) by simp
    have sub: "subseq (p # S) (p # ps)"
      using S(2) by simp
    have unknown: "\<forall>q\<in>set (p # S). \<not> known_peer conns hs avail q"
      using False S(3) by (simp add: known_peer_snoc)
    have first: "\<forall>i<length (p # ps). \<not> known_peer conns hs avail ((p # ps) ! i) \<longrightarrow>
           (\<forall>j<i. \<not> is_same_host ((p # ps) ! j) ((p # ps) ! i)) \<longrightarrow>
           (p # ps) ! i \<in> set (p # S)"
    proof (intro allI impI)
      fix i
      assume i: "i < length (p # ps)" "\<not> known_peer conns hs avail ((p # ps) ! i)"
        "\<forall>j<i. \<not> is_same_host ((p # ps) ! j) ((p # ps) ! i)"
      show "(p # ps) ! i \<in> set (p # S)"
      proof (cases i)
        case 0
        then show ?thesis by simp
      next
        case (Suc i')
        have "\<not> is_same_host p (ps ! i')"
          using i(3) Suc by auto
        moreover have "\<forall>j<i'. \<not> is_same_host (ps ! j) (ps ! i')"
          using i(3) Suc by auto
        ultimately have "ps ! i' \<in> set S"
          using S(4) i(1) i(2) Suc by (simp add: known_peer_snoc)
        then show ?thesis using Suc by simp
      qed
    qed
    have dist: "distinct (map (\<lambda>p. (p_dns p, p_port p)) (p # S))"
      using S(3) S(5) by (auto simp: known_peer_snoc is_same_host_def)
    show ?thesis using eq sub unknown first dist by blast
  qed
qed

lemma add_peers_available:
  "available_peers (m_state (add_peers hs ps d)) =
     add_peers_loop (connections (m_state d)) hs (available_peers (m_state d)) ps"
  by (simp add: add_peers_def do_call_def)

text \<open>
  C3. \<open>add_peers\<close> appends to the back of the available pool a subsequence \<open>S\<close> of the
  candidates, in their order. No member of \<open>S\<close> matches, by \<open>is_same_host\<close>, an entry of
  the connections, of the handshakes or of the available pool as the call found it, so
  every candidate that does is discarded. Every candidate that matches no such entry
  and no earlier candidate of the list is in \<open>S\<close>. Three candidates of pairwise
  different hosts that match no entry are all appended, in the order given. Candidate by
  candidate: after the candidates \<open>xs\<close>, the next candidate \<open>p\<close> is dropped when it
  matches an entry of the three pools as they then are, and is put at the back of the
  available pool otherwise. The connections are left as they were, and
  \<open>connect_peers()\<close> is called once, at the end.
\<close>

theorem add_peers_admits_unknown_in_order:
  "(\<exists>S. available_peers (m_state (add_peers hs ps d)) = available_peers (m_state d) @ S \<and>
        subseq S ps \<and>
        (\<forall>q\<in>set S.
            \<not> known_peer (connections (m_state d)) hs (available_peers (m_state d)) q) \<and>
        (\<forall>i<length ps.
            \<not> known_peer (connections (m_state d)) hs (available_peers (m_state d)) (ps ! i) \<longrightarrow>
            (\<forall>j<i. \<not> is_same_host (ps ! j) (ps ! i)) \<longrightarrow> ps ! i \<in> set S)) \<and>
   (\<not> known_peer (connections (m_state d)) hs (available_peers (m_state d)) a \<and>
    \<not> known_peer (connections (m_state d)) hs (available_peers (m_state d)) b \<and>
    \<not> known_peer (connections (m_state d)) hs (available_peers (m_state d)) c \<and>
    \<not> is_same_host a b \<and> \<not> is_same_host a c \<and> \<not> is_same_host b c \<longrightarrow>
      available_peers (m_state (add_peers hs [a, b, c] d)) =
        available_peers (m_state d) @ [a, b, c]) \<and>
   available_peers (m_state (add_peers hs (xs @ [p]) d)) =
     (if known_peer (connections (m_state d)) hs
           (available_peers (m_state (add_peers hs xs d))) p
      then available_peers (m_state (add_peers hs xs d))
      else available_peers (m_state (add_peers hs xs d)) @ [p]) \<and>
   available_peers (m_state (add_peers hs [] d)) = available_peers (m_state d) \<and>
   connections (m_state (add_peers hs ps d)) = connections (m_state d) \<and>
   calls (add_peers hs ps d) = calls d @ [Connect_peers]"
proof (intro conjI impI)
  show "\<exists>S. available_peers (m_state (add_peers hs ps d)) = available_peers (m_state d) @ S \<and>
        subseq S ps \<and>
        (\<forall>q\<in>set S.
            \<not> known_peer (connections (m_state d)) hs (available_peers (m_state d)) q) \<and>
        (\<forall>i<length ps.
            \<not> known_peer (connections (m_state d)) hs (available_peers (m_state d)) (ps ! i) \<longrightarrow>
            (\<forall>j<i. \<not> is_same_host (ps ! j) (ps ! i)) \<longrightarrow> ps ! i \<in> set S)"
    using add_peers_loop_appends
      [of "connections (m_state d)" hs "available_peers (m_state d)" ps]
    unfolding add_peers_available by blast
next
  assume "\<not> known_peer (connections (m_state d)) hs (available_peers (m_state d)) a \<and>
    \<not> known_peer (connections (m_state d)) hs (available_peers (m_state d)) b \<and>
    \<not> known_peer (connections (m_state d)) hs (available_peers (m_state d)) c \<and>
    \<not> is_same_host a b \<and> \<not> is_same_host a c \<and> \<not> is_same_host b c"
  then show "available_peers (m_state (add_peers hs [a, b, c] d)) =
        available_peers (m_state d) @ [a, b, c]"
    by (auto simp: add_peers_available known_peer_def)
next
  show "available_peers (m_state (add_peers hs (xs @ [p]) d)) =
     (if known_peer (connections (m_state d)) hs
           (available_peers (m_state (add_peers hs xs d))) p
      then available_peers (m_state (add_peers hs xs d))
      else available_peers (m_state (add_peers hs xs d)) @ [p])"
    by (simp add: add_peers_available add_peers_loop_append)
next
  show "available_peers (m_state (add_peers hs [] d)) = available_peers (m_state d)"
    by (simp add: add_peers_available)
next
  show "connections (m_state (add_peers hs ps d)) = connections (m_state d)"
    by (simp add: add_peers_def do_call_def)
next
  show "calls (add_peers hs ps d) = calls d @ [Connect_peers]"
    by (simp add: add_peers_def do_call_def)
qed

text \<open>
  Of seven candidates, the three that match the connection, the handshake and the queued
  candidate are dropped, as is the second one for 10.0.0.7:1; the other three are
  appended in their order. The last three hosts alone are all appended.
\<close>

theorem add_peers_admits_unknown_in_order_witness:
  "available_peers (m_state (add_peers pools_handshakes mixed_candidates pools_download)) =
     available_peers (m_state pools_download) @
       [example_peer ''b'' ''10.0.0.7'' 1, example_peer ''d'' ''10.0.0.8'' 1,
        example_peer ''g'' ''10.0.0.7'' 2] \<and>
   known_peer (connections (m_state pools_download)) pools_handshakes
     (available_peers (m_state pools_download)) (mixed_candidates ! 0) \<and>
   known_peer (connections (m_state pools_download)) pools_handshakes
     (available_peers (m_state pools_download)) (mixed_candidates ! 2) \<and>
   known_peer (connections (m_state pools_download)) pools_handshakes
     (available_peers (m_state pools_download)) (mixed_candidates ! 5) \<and>
   \<not> known_peer (connections (m_state pools_download)) pools_handshakes
     (available_peers (m_state pools_download)) (mixed_candidates ! 1) \<and>
   \<not> known_peer (connections (m_state pools_download)) pools_handshakes
     (available_peers (m_state pools_download)) (mixed_candidates ! 3) \<and>
   \<not> known_peer (connections (m_state pools_download)) pools_handshakes
     (available_peers (m_state pools_download)) (mixed_candidates ! 6) \<and>
   \<not> is_same_host (mixed_candidates ! 1) (mixed_candidates ! 3) \<and>
   \<not> is_same_host (mixed_candidates ! 1) (mixed_candidates ! 6) \<and>
   \<not> is_same_host (mixed_candidates ! 3) (mixed_candidates ! 6) \<and>
   available_peers (m_state (add_peers pools_handshakes
        [mixed_candidates ! 1, mixed_candidates ! 3, mixed_candidates ! 6] pools_download)) =
     available_peers (m_state pools_download) @
       [mixed_candidates ! 1, mixed_candidates ! 3, mixed_candidates ! 6]"
  using add_peers_admits_unknown_in_order
    [where hs = pools_handshakes and ps = mixed_candidates and d = pools_download
       and a = "mixed_candidates ! 1" and b = "mixed_candidates ! 3"
       and c = "mixed_candidates ! 6" and xs = "[]" and p = "mixed_candidates ! 0"]
  by (simp add: pools_defs example_defs add_peers_available known_peer_def is_same_host_def)

text \<open>
  C10. Among the candidates that one call of \<open>add_peers\<close> appends no two are the same
  host: their pairs of host and port are pairwise different. A candidate that follows,
  in the same list, an appended candidate of the same host is discarded.
\<close>

theorem add_peers_one_per_host:
  "(\<exists>S. available_peers (m_state (add_peers hs ps d)) = available_peers (m_state d) @ S \<and>
        distinct (map (\<lambda>p. (p_dns p, p_port p)) S) \<and>
        (\<forall>i j. i < j \<and> j < length S \<longrightarrow> \<not> is_same_host (S ! i) (S ! j))) \<and>
   (\<not> known_peer (connections (m_state d)) hs (available_peers (m_state d)) a \<and>
    is_same_host a b \<longrightarrow>
      available_peers (m_state (add_peers hs [a, b] d)) = available_peers (m_state d) @ [a])"
proof (intro conjI impI)
  obtain S where S:
    "add_peers_loop (connections (m_state d)) hs (available_peers (m_state d)) ps =
       available_peers (m_state d) @ S"
    "distinct (map (\<lambda>p. (p_dns p, p_port p)) S)"
    using add_peers_loop_appends
      [of "connections (m_state d)" hs "available_peers (m_state d)" ps]
    by blast
  have "\<forall>i j. i < j \<and> j < length S \<longrightarrow> \<not> is_same_host (S ! i) (S ! j)"
  proof (intro allI impI)
    fix i j
    assume ij: "i < j \<and> j < length S"
    then have "i < length (map (\<lambda>p. (p_dns p, p_port p)) S)"
      "j < length (map (\<lambda>p. (p_dns p, p_port p)) S)" "i \<noteq> j"
      by auto
    with S(2)
    have "map (\<lambda>p. (p_dns p, p_port p)) S ! i \<noteq> map (\<lambda>p. (p_dns p, p_port p)) S ! j"
      using nth_eq_iff_index_eq by blast
    then show "\<not> is_same_host (S ! i) (S ! j)"
      using ij by (auto simp: is_same_host_def)
  qed
  then show "\<exists>S. available_peers (m_state (add_peers hs ps d)) = available_peers (m_state d) @ S \<and>
        distinct (map (\<lambda>p. (p_dns p, p_port p)) S) \<and>
        (\<forall>i j. i < j \<and> j < length S \<longrightarrow> \<not> is_same_host (S ! i) (S ! j))"
    using S unfolding add_peers_available by blast
next
  assume "\<not> known_peer (connections (m_state d)) hs (available_peers (m_state d)) a \<and>
    is_same_host a b"
  then show "available_peers (m_state (add_peers hs [a, b] d)) = available_peers (m_state d) @ [a]"
    by (auto simp: add_peers_available known_peer_def)
qed

text \<open>
  In the list of seven, the candidates at positions 1 and 4 are the same host under two
  ids; only the first is appended. The two of them alone give one new entry.
\<close>

theorem add_peers_one_per_host_witness:
  "is_same_host (mixed_candidates ! 1) (mixed_candidates ! 4) \<and>
   mixed_candidates ! 1 \<noteq> mixed_candidates ! 4 \<and>
   \<not> known_peer (connections (m_state pools_download)) pools_handshakes
     (available_peers (m_state pools_download)) (mixed_candidates ! 1) \<and>
   available_peers (m_state (add_peers pools_handshakes
        [mixed_candidates ! 1, mixed_candidates ! 4] pools_download)) =
     available_peers (m_state pools_download) @ [mixed_candidates ! 1] \<and>
   map p_id (available_peers (m_state
        (add_peers pools_handshakes mixed_candidates pools_download))) =
     [''q'', ''b'', ''d'', ''g'']"
  using add_peers_one_per_host
    [where hs = pools_handshakes and ps = mixed_candidates and d = pools_download
       and a = "mixed_candidates ! 1" and b = "mixed_candidates ! 4"]
  by (simp add: pools_defs example_defs add_peers_available known_peer_def is_same_host_def)

section \<open>Construction from malformed metadata\<close>

lemmas torrent_defs =
  example_env_def example_state0_def torrent_no_info_def torrent_no_announce_def
  torrent_complete_def example_settings_def

text \<open>
  On malformed metadata the \<open>try\<close> block is left by an exception, which is a
  \<open>bencode_error\<close> unless \<open>openAll\<close> has failed before with its \<open>local_error\<close>.
\<close>

lemma ctor_try_malformed:
  assumes "metadata_malformed env b"
  shows "\<exists>w d'. (ctor_try env b d = (Some (bencode_error w), d') \<or>
                  ctor_try env b d = (Some (local_error w), d' ) \<and> files_openAll env = Some w)"
  using assms
  by (auto simp: metadata_malformed_def ctor_try_def Let_def split: sum.splits option.splits)

lemma ctor_release_released:
  "\<not> f_opened (files (m_state (ctor_release d))) \<and> m_tracker (ctor_release d) = None \<and>
   calls (ctor_release d) = calls d @ [Files_closeAll, Delete_tracker]"
  by (simp add: ctor_release_def do_call_def)

text \<open>
  C8. For every malformed metadata the constructor throws a \<open>local_error\<close> (the class of
  the spec's MetadataError), so no object is constructed. Before it throws, it calls
  \<open>closeAll\<close> and deletes the tracker: these are its last two calls, after which no file
  is open and no tracker object is left. \<open>m_downloads\<close> is as it was. Unless \<open>openAll\<close>
  has failed first, the text of the error is "Bad torrent file" with the text of the
  \<open>bencode_error\<close> in quotes.
\<close>

theorem Download_ctor_malformed_metadata:
  assumes "metadata_malformed env b"
  shows \<open>(\<exists>w. fst (Download_ctor env st0 b reg) = Some (local_error w)) \<and>
         \<not> f_opened (files (m_state (fst (snd (Download_ctor env st0 b reg))))) \<and>
         m_tracker (fst (snd (Download_ctor env st0 b reg))) = None \<and>
         (\<exists>cs. calls (fst (snd (Download_ctor env st0 b reg))) =
                 cs @ [Files_closeAll, Delete_tracker]) \<and>
         snd (snd (Download_ctor env st0 b reg)) = reg \<and>
         (files_openAll env = None \<longrightarrow>
            (\<exists>w. fst (Download_ctor env st0 b reg) =
                    Some (local_error (''Bad torrent file "'' @ w @ ''"''))))\<close>
proof -
  obtain w d' where r:
    "ctor_try env b (Download_init st0) = (Some (bencode_error w), d') \<or>
     ctor_try env b (Download_init st0) = (Some (local_error w), d') \<and>
       files_openAll env = Some w"
    using ctor_try_malformed [OF assms, of "Download_init st0"] by blast
  then show ?thesis
  proof
    assume "ctor_try env b (Download_init st0) = (Some (bencode_error w), d')"
    then show ?thesis
      by (simp add: Download_ctor_def ctor_release_released)
  next
    assume "ctor_try env b (Download_init st0) = (Some (local_error w), d') \<and>
       files_openAll env = Some w"
    then show ?thesis
      by (simp add: Download_ctor_def ctor_release_released)
  qed
qed

text \<open>
  Metadata without an info dictionary fails before anything is opened; metadata without
  an announce URL fails after the files were opened and the tracker was created, and
  both are released. The registry \<open>[3, 8]\<close> is returned as it was.
\<close>

theorem Download_ctor_malformed_metadata_witness:
  \<open>metadata_malformed example_env torrent_no_info \<and>
   metadata_malformed example_env torrent_no_announce \<and>
   \<not> metadata_malformed example_env torrent_complete \<and>
   fst (Download_ctor example_env example_state0 torrent_no_info [3, 8]) =
     Some (local_error ''Bad torrent file "could not find element info"'') \<and>
   calls (fst (snd (Download_ctor example_env example_state0 torrent_no_info [3, 8]))) =
     [Files_closeAll, Delete_tracker] \<and>
   snd (snd (Download_ctor example_env example_state0 torrent_no_info [3, 8])) = [3, 8] \<and>
   fst (Download_ctor example_env example_state0 torrent_no_announce [3, 8]) =
     Some (local_error ''Bad torrent file "could not find element announce"'') \<and>
   calls (fst (snd (Download_ctor example_env example_state0 torrent_no_announce [3, 8]))) =
     [Files_set, Files_openAll, New_TrackerControl, Files_closeAll, Delete_tracker] \<and>
   m_tracker (fst (snd (Download_ctor example_env example_state0 torrent_no_announce [3, 8])))
     = None \<and>
   snd (snd (Download_ctor example_env example_state0 torrent_no_announce [3, 8])) = [3, 8] \<and>
   fst (Download_ctor example_env example_state0 torrent_complete [3, 8]) = None\<close>
proof -
  have m1: "metadata_malformed example_env torrent_no_info"
    by (simp add: metadata_malformed_def torrent_defs)
  have m2: "metadata_malformed example_env torrent_no_announce"
    by (simp add: metadata_malformed_def torrent_defs)
  have m3: "\<not> metadata_malformed example_env torrent_complete"
    by (simp add: metadata_malformed_def torrent_defs)
  have e1: \<open>fst (Download_ctor example_env example_state0 torrent_no_info [3, 8]) =
     Some (local_error ''Bad torrent file "could not find element info"'') \<and>
   calls (fst (snd (Download_ctor example_env example_state0 torrent_no_info [3, 8]))) =
     [Files_closeAll, Delete_tracker]\<close>
    by (simp add: Download_ctor_def ctor_try_def ctor_release_def Download_init_def
        do_call_def torrent_defs)
  have e2: \<open>fst (Download_ctor example_env example_state0 torrent_no_announce [3, 8]) =
     Some (local_error ''Bad torrent file "could not find element announce"'') \<and>
   calls (fst (snd (Download_ctor example_env example_state0 torrent_no_announce [3, 8]))) =
     [Files_set, Files_openAll, New_TrackerControl, Files_closeAll, Delete_tracker]\<close>
    by (simp add: Download_ctor_def ctor_try_def ctor_release_def Download_init_def
        do_call_def torrent_defs)
  have e3: "fst (Download_ctor example_env example_state0 torrent_complete [3, 8]) = None"
    by (simp add: Download_ctor_def ctor_try_def ctor_release_def Download_init_def
        do_call_def torrent_defs)
  show ?thesis
    using Download_ctor_malformed_metadata [OF m1, of example_state0 "[3, 8]"]
          Download_ctor_malformed_metadata [OF m2, of example_state0 "[3, 8]"]
          m1 m2 m3 e1 e2 e3
    by simp
qed

end
